theory Spec2Isabelle
  imports Complex_Main "HOL-Library.AList"
begin

section \<open>JavaScript values as the library sees them\<close>

text \<open>
  The library is TypeScript, and its functions take \<^verbatim>\<open>unknown\<close> or object-typed
  arguments whose static types are erased when the code runs. The claims speak of what
  happens at run time (a \<^verbatim>\<open>code\<close> that is zero or null, extra fields, inputs that are
  not objects), so the model is of run-time values.

  A number is an IEEE double. Only its truthiness is ever inspected, so a number is
  \<open>NaN\<close>, negative zero, an infinity, or a finite value (\<open>Finite 0\<close> is positive zero).
\<close>

datatype jsnum = NaN | NegZero | PosInfinity | NegInfinity | Finite rat

text \<open>
  An object is two lists of string-keyed properties. The first holds its own
  enumerable properties, in property order: these are what an object spread copies.
  The second holds every other property a read can reach: the object's own
  non-enumerable properties, then the properties of its prototype chain, nearest
  prototype first. A read of \<open>k\<close> takes the first entry for \<open>k\<close> in the first list
  followed by the second, so an own property shadows an inherited one. An object
  literal such as \<^verbatim>\<open>{ code: "X" }\<close> has an empty second list; \<^verbatim>\<open>new Error("hi")\<close> has
  no enumerable property and holds \<^verbatim>\<open>message\<close> in its second list; an instance of a
  class with \<^verbatim>\<open>get code()\<close> holds \<^verbatim>\<open>code\<close> in its second list.

  A property is modelled by what reading it does: \<open>Value v\<close> is a data property
  holding \<open>v\<close> (or an accessor whose getter returns \<open>v\<close>), \<open>Throws e\<close> is an accessor
  whose getter throws \<open>e\<close>. Functions are objects here.

  The built-in prototypes are taken as the language defines them:
  \<^verbatim>\<open>Object.prototype\<close> and the prototypes of the primitives define none of the names
  this library reads (\<^verbatim>\<open>code\<close>, \<^verbatim>\<open>message\<close>, \<^verbatim>\<open>show\<close>, \<^verbatim>\<open>notFoundCode\<close>,
  \<^verbatim>\<open>notFoundMsg\<close>), so their properties are not repeated in a second list, and a read
  of one of these names on a primitive finds nothing.
\<close>

datatype jsval =
    JUndefined
  | JNull
  | JBool bool
  | JNum jsnum
  | JBigInt int
  | JStr string
  | JSymbol string
  | JObj "(string \<times> slot) list" "(string \<times> slot) list"
and slot =
    Value jsval
  | Throws jsval

text \<open>
  What a JavaScript expression can raise: the \<^verbatim>\<open>TypeError\<close> of reading a property of
  \<^verbatim>\<open>null\<close> or \<^verbatim>\<open>undefined\<close>, or whatever value a getter throws.
\<close>

datatype error = TypeError | Thrown jsval

text \<open>\<^verbatim>\<open>!x\<close>, \<^verbatim>\<open>x || y\<close> and \<^verbatim>\<open>if (x)\<close> test \<open>ToBoolean x\<close>.\<close>

fun ToBoolean :: "jsval \<Rightarrow> bool" where
  "ToBoolean JUndefined = False"
| "ToBoolean JNull = False"
| "ToBoolean (JBool b) = b"
| "ToBoolean (JNum NaN) = False"
| "ToBoolean (JNum NegZero) = False"
| "ToBoolean (JNum (Finite q)) = (q \<noteq> 0)"
| "ToBoolean (JNum PosInfinity) = True"
| "ToBoolean (JNum NegInfinity) = True"
| "ToBoolean (JBigInt i) = (i \<noteq> 0)"
| "ToBoolean (JStr s) = (s \<noteq> [])"
| "ToBoolean (JSymbol d) = True"
| "ToBoolean (JObj ps hs) = True"

fun read_slot :: "slot \<Rightarrow> error + jsval" where
  "read_slot (Value v) = Inr v"
| "read_slot (Throws e) = Inl (Thrown e)"

text \<open>\<^verbatim>\<open>x.k\<close>: a \<^verbatim>\<open>TypeError\<close> on \<^verbatim>\<open>null\<close> and \<^verbatim>\<open>undefined\<close>; on an object, the first
  property named \<open>k\<close> among its own and then its inherited ones, \<^verbatim>\<open>undefined\<close> when
  there is none.\<close>

fun get_member :: "jsval \<Rightarrow> string \<Rightarrow> error + jsval" where
  "get_member JUndefined k = Inl TypeError"
| "get_member JNull k = Inl TypeError"
| "get_member (JObj ps hs) k =
     (case map_of (ps @ hs) k of None \<Rightarrow> Inr JUndefined | Some p \<Rightarrow> read_slot p)"
| "get_member v k = Inr JUndefined"

text \<open>\<^verbatim>\<open>x?.k\<close>: \<^verbatim>\<open>undefined\<close> on \<^verbatim>\<open>null\<close> and \<^verbatim>\<open>undefined\<close>, otherwise \<^verbatim>\<open>x.k\<close>.\<close>

definition opt_member :: "jsval \<Rightarrow> string \<Rightarrow> error + jsval" where
  "opt_member x k = (if x = JUndefined \<or> x = JNull then Inr JUndefined else get_member x k)"

text \<open>
  The object spread \<^verbatim>\<open>{ ...x }\<close> reads every own enumerable property of \<open>x\<close> in
  order and stores what it read as a data property of a new plain object; the first
  getter that throws ends it. Non-enumerable and inherited properties are not copied.
  \<^verbatim>\<open>null\<close>, \<^verbatim>\<open>undefined\<close>, booleans, numbers, bigints and symbols contribute nothing; a
  string contributes one property per code unit, keyed by its index.
\<close>

fun copy_props :: "(string \<times> slot) list \<Rightarrow> error + (string \<times> slot) list" where
  "copy_props [] = Inr []"
| "copy_props ((k, p) # ps) =
     (case read_slot p of
        Inl e \<Rightarrow> Inl e
      | Inr v \<Rightarrow> (case copy_props ps of
                   Inl e \<Rightarrow> Inl e
                 | Inr qs \<Rightarrow> Inr ((k, Value v) # qs)))"

fun index_key :: "nat \<Rightarrow> string" where
  "index_key n =
     (if n < 10 then [char_of (48 + n)]
      else index_key (n div 10) @ [char_of (48 + n mod 10)])"

fun spread :: "jsval \<Rightarrow> error + (string \<times> slot) list" where
  "spread (JObj ps hs) = copy_props ps"
| "spread (JStr s) = Inr (map (\<lambda>(i, c). (index_key i, Value (JStr [c]))) (enumerate 0 s))"
| "spread v = Inr []"

text \<open>\<^verbatim>\<open>{ ...x, k: v }\<close>: a plain object, the copy of \<open>x\<close> with \<open>k\<close> set to \<open>v\<close>, in
  place when the copy has the key and at the end otherwise.\<close>

definition spread_with :: "jsval \<Rightarrow> string \<Rightarrow> jsval \<Rightarrow> error + jsval" where
  "spread_with x k v =
     (case spread x of
        Inl e \<Rightarrow> Inl e
      | Inr ps \<Rightarrow> Inr (JObj (AList.update k (Value v) ps) []))"


section \<open>The Result module\<close>

definition NO_ERROR_CODE :: string where
  "NO_ERROR_CODE = ''no_error_code''"

text \<open>
  \<^verbatim>\<open>Result<T, E>\<close> is the union of \<^verbatim>\<open>{ ok: true; data: T }\<close> and
  \<^verbatim>\<open>{ ok: false; err: E }\<close>; \<open>ok\<close> is its discriminant.
\<close>

datatype ('t, 'e) Result = Success (data: 't) | Failure (err: 'e)

fun ok :: "('t, 'e) Result \<Rightarrow> bool" where
  "ok (Success d) = True"
| "ok (Failure e) = False"

text \<open>\<^verbatim>\<open>Ok(data?)\<close>: an omitted argument is \<^verbatim>\<open>undefined\<close>.\<close>

definition Ok :: "jsval option \<Rightarrow> (jsval, jsval) Result" where
  "Ok arg = Success (case arg of None \<Rightarrow> JUndefined | Some d \<Rightarrow> d)"

definition Err :: "jsval \<Rightarrow> error + (jsval, jsval) Result" where
  "Err err0 =
     (case opt_member err0 ''code'' of
        Inl e \<Rightarrow> Inl e
      | Inr c \<Rightarrow>
     (case (if \<not> ToBoolean c then spread_with err0 ''code'' (JStr NO_ERROR_CODE)
            else Inr err0) of
        Inl e \<Rightarrow> Inl e
      | Inr err1 \<Rightarrow>
     (case opt_member err1 ''show'' of
        Inl e \<Rightarrow> Inl e
      | Inr s \<Rightarrow>
     (case (if \<not> ToBoolean s then spread_with err1 ''show'' (JBool False)
            else Inr err1) of
        Inl e \<Rightarrow> Inl e
      | Inr err2 \<Rightarrow> Inr (Failure err2)))))"


section \<open>The Zeturn helper class\<close>

definition NOT_FOUND_CODE :: string where
  "NOT_FOUND_CODE = ''zeturn_unknown''"

definition NOT_FOUND_MSG :: string where
  "NOT_FOUND_MSG = ''zeturn: unknown''"

text \<open>An instance holds the two defaults its constructor captured.\<close>

record Zeturn =
  notFoundCode :: jsval
  notFoundMsg :: jsval

text \<open>\<^verbatim>\<open>x || d\<close>\<close>

definition or_else :: "jsval \<Rightarrow> jsval \<Rightarrow> jsval" where
  "or_else x d = (if ToBoolean x then x else d)"

definition Zeturn_new :: "jsval \<Rightarrow> error + Zeturn" where
  "Zeturn_new opt =
     (case get_member opt ''notFoundCode'' of
        Inl e \<Rightarrow> Inl e
      | Inr c \<Rightarrow>
     (case get_member opt ''notFoundMsg'' of
        Inl e \<Rightarrow> Inl e
      | Inr m \<Rightarrow>
          Inr \<lparr> notFoundCode = or_else c (JStr NOT_FOUND_CODE),
                notFoundMsg = or_else m (JStr NOT_FOUND_MSG) \<rparr>))"

text \<open>The static operations, \<^verbatim>\<open>Zeturn.codeFromError\<close> and \<^verbatim>\<open>Zeturn.msgFromError\<close>.\<close>

definition Zeturn_codeFromError :: "jsval \<Rightarrow> error + jsval" where
  "Zeturn_codeFromError error =
     (case opt_member error ''code'' of
        Inl e \<Rightarrow> Inl e
      | Inr errCode \<Rightarrow>
          if \<not> ToBoolean errCode then Inr (JStr NOT_FOUND_CODE) else Inr errCode)"

definition Zeturn_msgFromError :: "jsval \<Rightarrow> error + jsval" where
  "Zeturn_msgFromError error =
     (case opt_member error ''message'' of
        Inl e \<Rightarrow> Inl e
      | Inr errMsg \<Rightarrow>
          if \<not> ToBoolean errMsg then Inr (JStr NOT_FOUND_MSG) else Inr errMsg)"

text \<open>The instance operations; \<open>this\<close> is the instance.\<close>

definition codeFromError :: "Zeturn \<Rightarrow> jsval \<Rightarrow> error + jsval" where
  "codeFromError this error =
     (case opt_member error ''code'' of
        Inl e \<Rightarrow> Inl e
      | Inr errCode \<Rightarrow>
          if \<not> ToBoolean errCode then Inr (notFoundCode this) else Inr errCode)"

definition msgFromError :: "Zeturn \<Rightarrow> jsval \<Rightarrow> error + jsval" where
  "msgFromError this error =
     (case opt_member error ''message'' of
        Inl e \<Rightarrow> Inl e
      | Inr errMsg \<Rightarrow>
          if \<not> ToBoolean errMsg then Inr (notFoundMsg this) else Inr errMsg)"


section \<open>Calls against the fields the class declares\<close>







section \<open>Shapes of inputs the claims speak of\<close>

text \<open>
  A record whose fields can all be read: no own enumerable property is an accessor
  whose getter throws.
\<close>

fun data_record :: "(string \<times> slot) list \<Rightarrow> bool" where
  "data_record [] = True"
| "data_record ((k, Value v) # ps) = data_record ps"
| "data_record ((k, Throws e) # ps) = False"

text \<open>
  The field \<open>k\<close> of \<open>x\<close> is absent or falsy: \<open>x\<close> is not an object, or a read of \<open>k\<close>
  finds no property, own or inherited, or the property it finds holds a falsy value.
\<close>

fun falsy_field :: "jsval \<Rightarrow> string \<Rightarrow> bool" where
  "falsy_field (JObj ps hs) k =
     (case map_of (ps @ hs) k of
        None \<Rightarrow> True
      | Some (Value v) \<Rightarrow> \<not> ToBoolean v
      | Some (Throws e) \<Rightarrow> False)"
| "falsy_field v k = True"

text \<open>The property a read of \<open>k\<close> on \<open>x\<close> finds is an accessor whose getter throws.\<close>

fun getter_throws :: "jsval \<Rightarrow> string \<Rightarrow> bool" where
  "getter_throws (JObj ps hs) k =
     (case map_of (ps @ hs) k of Some (Throws e) \<Rightarrow> True | _ \<Rightarrow> False)"
| "getter_throws v k = False"


section \<open>Reading a field\<close>

lemma copy_props_data_record: "data_record ps \<Longrightarrow> copy_props ps = Inr ps"
  by (induction ps rule: data_record.induct) simp_all

lemma data_record_update:
  "data_record ps \<Longrightarrow> data_record (AList.update k (Value v) ps)"
  by (induction ps rule: data_record.induct) simp_all

lemma opt_member_falsy:
  "falsy_field x k \<Longrightarrow> \<exists>v. opt_member x k = Inr v \<and> \<not> ToBoolean v"
  by (cases x) (auto simp: opt_member_def split: option.splits slot.splits)

lemma opt_member_no_throw:
  "\<not> getter_throws x k \<Longrightarrow> \<exists>v. opt_member x k = Inr v"
  by (cases x) (auto simp: opt_member_def split: option.splits slot.splits)

lemma opt_member_not_object:
  "\<forall>ps hs. x \<noteq> JObj ps hs \<Longrightarrow> opt_member x k = Inr JUndefined"
  by (cases x) (auto simp: opt_member_def)

lemma opt_member_found:
  "map_of (ps @ hs) k = Some p \<Longrightarrow> opt_member (JObj ps hs) k = read_slot p"
  by (simp add: opt_member_def)

lemma falsy_field_own:
  "falsy_field (JObj ps hs) k \<Longrightarrow> falsy_field (JObj ps []) k"
  by (auto simp: map_add_def split: option.splits slot.splits)

lemma codeFromError_default:
  "notFoundCode this = JStr NOT_FOUND_CODE \<Longrightarrow>
   codeFromError this error = Zeturn_codeFromError error"
  by (simp add: codeFromError_def Zeturn_codeFromError_def split: sum.splits)

lemma msgFromError_default:
  "notFoundMsg this = JStr NOT_FOUND_MSG \<Longrightarrow>
   msgFromError this error = Zeturn_msgFromError error"
  by (simp add: msgFromError_def Zeturn_msgFromError_def split: sum.splits)




section \<open>The Result constructors\<close>

text \<open>
  C2. For every value \<open>d\<close>, \<^verbatim>\<open>Ok(d)\<close> is the success-tagged result (\<open>ok\<close> is true)
  whose \<open>data\<close> is \<open>d\<close>, and \<^verbatim>\<open>Ok()\<close> is the success-tagged result whose \<open>data\<close> is
  \<^verbatim>\<open>undefined\<close>. \<open>Ok\<close> reads nothing of its argument, so it has no error result: it
  is a total function into results.
\<close>

theorem Ok_success:
  "Ok (Some d) = Success d \<and> ok (Ok (Some d)) = True \<and> data (Ok (Some d)) = d \<and>
   Ok None = Success JUndefined \<and> ok (Ok None) = True \<and> data (Ok None) = JUndefined"
  by (simp add: Ok_def)

theorem Ok_success_witness:
  "Ok (Some (JObj [(''url'', Value (JStr ''http://x''))] []))
     = Success (JObj [(''url'', Value (JStr ''http://x''))] []) \<and>
   ok (Ok (Some (JObj [(''url'', Value (JStr ''http://x''))] []))) = True \<and>
   data (Ok None) = JUndefined"
  using Ok_success [of "JObj [(''url'', Value (JStr ''http://x''))] []"] by simp

text \<open>
  C1. For every input record that has a string \<^verbatim>\<open>msg\<close> and whose \<^verbatim>\<open>code\<close> and
  \<^verbatim>\<open>show\<close> are each absent or falsy, \<open>Err\<close> returns a failure-tagged result (\<open>ok\<close> is
  false) whose \<open>err\<close> is a plain object with \<^verbatim>\<open>msg\<close> equal to the input's, \<^verbatim>\<open>code\<close>
  equal to the string \<^verbatim>\<open>"no_error_code"\<close> and \<^verbatim>\<open>show\<close> equal to the boolean false; both
  are present in the output. The input is a record in the sense of \<open>data_record\<close>: the
  spread that builds the output reads every own enumerable field of it. Whatever
  else a read of the input can reach (\<open>hs\<close>) makes no difference.
\<close>

theorem Err_defaults:
  assumes "data_record ps"
    and "map_of ps ''msg'' = Some (Value (JStr msg))"
    and "falsy_field (JObj ps hs) ''code''"
    and "falsy_field (JObj ps hs) ''show''"
  shows "\<exists>res fields. Err (JObj ps hs) = Inr res \<and> ok res = False \<and>
           err res = JObj fields [] \<and>
           map_of fields ''msg'' = Some (Value (JStr msg)) \<and>
           map_of fields ''code'' = Some (Value (JStr ''no_error_code'')) \<and>
           map_of fields ''show'' = Some (Value (JBool False))"
proof -
  let ?r1 = "AList.update ''code'' (Value (JStr NO_ERROR_CODE)) ps"
  let ?r2 = "AList.update ''show'' (Value (JBool False)) ?r1"
  obtain c where c: "opt_member (JObj ps hs) ''code'' = Inr c" "\<not> ToBoolean c"
    using opt_member_falsy [OF assms(3)] by blast
  have s1: "spread_with (JObj ps hs) ''code'' (JStr NO_ERROR_CODE) = Inr (JObj ?r1 [])"
    by (simp add: spread_with_def copy_props_data_record [OF assms(1)])
  have "map_of ?r1 ''show'' = map_of ps ''show''"
    by (simp add: update_conv')
  moreover have "falsy_field (JObj ps []) ''show''"
    using assms(4) by (rule falsy_field_own)
  ultimately have "falsy_field (JObj ?r1 []) ''show''"
    by simp
  then obtain s where s: "opt_member (JObj ?r1 []) ''show'' = Inr s" "\<not> ToBoolean s"
    using opt_member_falsy by blast
  have "data_record ?r1"
    using assms(1) by (rule data_record_update)
  then have s2: "spread_with (JObj ?r1 []) ''show'' (JBool False) = Inr (JObj ?r2 [])"
    by (simp add: spread_with_def copy_props_data_record)
  have "Err (JObj ps hs) = Inr (Failure (JObj ?r2 []))"
    by (simp add: Err_def c s1 s s2)
  moreover have "map_of ?r2 ''msg'' = Some (Value (JStr msg))"
    using assms(2) by (simp add: update_conv')
  moreover have "map_of ?r2 ''code'' = Some (Value (JStr ''no_error_code''))"
    by (simp add: update_conv' NO_ERROR_CODE_def)
  moreover have "map_of ?r2 ''show'' = Some (Value (JBool False))"
    by (simp add: update_conv')
  ultimately show ?thesis by simp
qed

theorem Err_defaults_witness:
  "(\<exists>res fields. Err (JObj [(''msg'', Value (JStr ''something went wrong''))] []) = Inr res \<and>
      ok res = False \<and> err res = JObj fields [] \<and>
      map_of fields ''msg'' = Some (Value (JStr ''something went wrong'')) \<and>
      map_of fields ''code'' = Some (Value (JStr ''no_error_code'')) \<and>
      map_of fields ''show'' = Some (Value (JBool False))) \<and>
   (\<exists>res fields.
      Err (JObj [(''code'', Value (JNum (Finite 0))), (''msg'', Value (JStr ''bad'')),
                 (''show'', Value JNull)] []) = Inr res \<and>
      ok res = False \<and> err res = JObj fields [] \<and>
      map_of fields ''msg'' = Some (Value (JStr ''bad'')) \<and>
      map_of fields ''code'' = Some (Value (JStr ''no_error_code'')) \<and>
      map_of fields ''show'' = Some (Value (JBool False)))"
  using Err_defaults [of "[(''msg'', Value (JStr ''something went wrong''))]"
      "''something went wrong''" "[]"]
    Err_defaults [of "[(''code'', Value (JNum (Finite 0))), (''msg'', Value (JStr ''bad'')),
                       (''show'', Value JNull)]" "''bad''" "[]"]
  by simp

text \<open>
  C7. For every input object whose \<^verbatim>\<open>code\<close> and \<^verbatim>\<open>show\<close> are both truthy, \<open>Err\<close>
  returns the failure-tagged result whose \<open>err\<close> is the input itself: \<^verbatim>\<open>code\<close> and
  \<^verbatim>\<open>show\<close> are kept as they are, and so is every other field (\<^verbatim>\<open>msg\<close>, and whatever
  else the object holds at run time).
\<close>

theorem Err_preserves:
  assumes "map_of (ps @ hs) ''code'' = Some (Value c)" and "ToBoolean c"
    and "map_of (ps @ hs) ''show'' = Some (Value s)" and "ToBoolean s"
  shows "Err (JObj ps hs) = Inr (Failure (JObj ps hs))"
  using assms by (simp add: Err_def opt_member_def)

theorem Err_preserves_witness:
  "Err (JObj [(''msg'', Value (JStr ''bad'')), (''code'', Value (JStr ''E1'')),
              (''show'', Value (JBool True)), (''extra'', Value (JNum (Finite 3)))] [])
   = Inr (Failure (JObj [(''msg'', Value (JStr ''bad'')), (''code'', Value (JStr ''E1'')),
              (''show'', Value (JBool True)), (''extra'', Value (JNum (Finite 3)))] []))"
  using Err_preserves [of "[(''msg'', Value (JStr ''bad'')), (''code'', Value (JStr ''E1'')),
              (''show'', Value (JBool True)), (''extra'', Value (JNum (Finite 3)))]" "[]"
      "JStr ''E1''" "JBool True"]
  by simp


section \<open>The extraction operations\<close>

text \<open>
  C3. The static \<^verbatim>\<open>Zeturn.codeFromError\<close> returns the value of the input's \<^verbatim>\<open>code\<close>
  field as it is, of whatever type, when a read of \<^verbatim>\<open>code\<close> finds a property (own or
  inherited, enumerable or not) holding a truthy value, and the string
  \<^verbatim>\<open>"zeturn_unknown"\<close> when the field is absent or falsy, which includes every input
  that is not an object (\<^verbatim>\<open>null\<close> and \<^verbatim>\<open>undefined\<close> among them).
\<close>

theorem static_codeFromError_spec:
  "(error = JObj ps hs \<and> map_of (ps @ hs) ''code'' = Some (Value v) \<and> ToBoolean v
      \<longrightarrow> Zeturn_codeFromError error = Inr v) \<and>
   (falsy_field error ''code''
      \<longrightarrow> Zeturn_codeFromError error = Inr (JStr ''zeturn_unknown''))"
proof (intro conjI impI)
  assume a: "error = JObj ps hs \<and> map_of (ps @ hs) ''code'' = Some (Value v) \<and> ToBoolean v"
  then have "opt_member error ''code'' = Inr v"
    using opt_member_found [of ps hs "''code''" "Value v"] by simp
  with a show "Zeturn_codeFromError error = Inr v"
    by (simp add: Zeturn_codeFromError_def)
next
  assume "falsy_field error ''code''"
  then obtain c where "opt_member error ''code'' = Inr c" "\<not> ToBoolean c"
    using opt_member_falsy by blast
  then show "Zeturn_codeFromError error = Inr (JStr ''zeturn_unknown'')"
    by (simp add: Zeturn_codeFromError_def NOT_FOUND_CODE_def)
qed

theorem static_codeFromError_spec_witness:
  "Zeturn_codeFromError (JObj [(''code'', Value (JStr ''X''))] []) = Inr (JStr ''X'') \<and>
   Zeturn_codeFromError (JObj [(''code'', Value (JNum (Finite 7)))] [])
     = Inr (JNum (Finite 7)) \<and>
   Zeturn_codeFromError (JObj [] [(''code'', Value (JStr ''P''))]) = Inr (JStr ''P'') \<and>
   Zeturn_codeFromError (JObj [(''code'', Value (JStr ''X''))] [(''code'', Value (JStr ''P''))])
     = Inr (JStr ''X'') \<and>
   Zeturn_codeFromError (JObj [] []) = Inr (JStr ''zeturn_unknown'') \<and>
   Zeturn_codeFromError JNull = Inr (JStr ''zeturn_unknown'') \<and>
   Zeturn_codeFromError JUndefined = Inr (JStr ''zeturn_unknown'') \<and>
   Zeturn_codeFromError (JObj [(''code'', Value (JStr ''''))] [])
     = Inr (JStr ''zeturn_unknown'') \<and>
   Zeturn_codeFromError (JObj [(''code'', Value (JNum (Finite 0)))] [])
     = Inr (JStr ''zeturn_unknown'') \<and>
   Zeturn_codeFromError (JObj [(''code'', Value JNull)] []) = Inr (JStr ''zeturn_unknown'')"
  using
    static_codeFromError_spec [of "JObj [(''code'', Value (JStr ''X''))] []"
      "[(''code'', Value (JStr ''X''))]" "[]" "JStr ''X''"]
    static_codeFromError_spec [of "JObj [(''code'', Value (JNum (Finite 7)))] []"
      "[(''code'', Value (JNum (Finite 7)))]" "[]" "JNum (Finite 7)"]
    static_codeFromError_spec [of "JObj [] [(''code'', Value (JStr ''P''))]"
      "[]" "[(''code'', Value (JStr ''P''))]" "JStr ''P''"]
    static_codeFromError_spec
      [of "JObj [(''code'', Value (JStr ''X''))] [(''code'', Value (JStr ''P''))]"
      "[(''code'', Value (JStr ''X''))]" "[(''code'', Value (JStr ''P''))]" "JStr ''X''"]
    static_codeFromError_spec [of "JObj [] []"]
    static_codeFromError_spec [of JNull]
    static_codeFromError_spec [of JUndefined]
    static_codeFromError_spec [of "JObj [(''code'', Value (JStr ''''))] []"]
    static_codeFromError_spec [of "JObj [(''code'', Value (JNum (Finite 0)))] []"]
    static_codeFromError_spec [of "JObj [(''code'', Value JNull)] []"]
  by simp

text \<open>
  C4. The static \<^verbatim>\<open>Zeturn.msgFromError\<close> reads the field \<^verbatim>\<open>message\<close>, not \<^verbatim>\<open>msg\<close>: it
  returns the value of \<^verbatim>\<open>message\<close> when a read of it finds a property (own or
  inherited, enumerable or not, as the \<^verbatim>\<open>message\<close> of a caught \<^verbatim>\<open>Error\<close> is) holding a
  truthy value, and the string \<^verbatim>\<open>"zeturn: unknown"\<close> when it is absent or falsy, which
  includes \<^verbatim>\<open>{}\<close>, an object that only has \<^verbatim>\<open>msg\<close>, and every input that is not an
  object.
\<close>

theorem static_msgFromError_spec:
  "(error = JObj ps hs \<and> map_of (ps @ hs) ''message'' = Some (Value v) \<and> ToBoolean v
      \<longrightarrow> Zeturn_msgFromError error = Inr v) \<and>
   (falsy_field error ''message''
      \<longrightarrow> Zeturn_msgFromError error = Inr (JStr ''zeturn: unknown''))"
proof (intro conjI impI)
  assume a: "error = JObj ps hs \<and> map_of (ps @ hs) ''message'' = Some (Value v) \<and>
    ToBoolean v"
  then have "opt_member error ''message'' = Inr v"
    using opt_member_found [of ps hs "''message''" "Value v"] by simp
  with a show "Zeturn_msgFromError error = Inr v"
    by (simp add: Zeturn_msgFromError_def)
next
  assume "falsy_field error ''message''"
  then obtain c where "opt_member error ''message'' = Inr c" "\<not> ToBoolean c"
    using opt_member_falsy by blast
  then show "Zeturn_msgFromError error = Inr (JStr ''zeturn: unknown'')"
    by (simp add: Zeturn_msgFromError_def NOT_FOUND_MSG_def)
qed

theorem static_msgFromError_spec_witness:
  "Zeturn_msgFromError (JObj [(''message'', Value (JStr ''hi''))] []) = Inr (JStr ''hi'') \<and>
   Zeturn_msgFromError (JObj [] [(''message'', Value (JStr ''hi''))]) = Inr (JStr ''hi'') \<and>
   Zeturn_msgFromError (JObj [] [(''message'', Value (JStr ''''))])
     = Inr (JStr ''zeturn: unknown'') \<and>
   Zeturn_msgFromError (JObj [(''msg'', Value (JStr ''hi''))] [])
     = Inr (JStr ''zeturn: unknown'') \<and>
   Zeturn_msgFromError (JObj [] []) = Inr (JStr ''zeturn: unknown'') \<and>
   Zeturn_msgFromError (JNum (Finite 5)) = Inr (JStr ''zeturn: unknown'') \<and>
   Zeturn_msgFromError (JStr ''oops'') = Inr (JStr ''zeturn: unknown'')"
  using
    static_msgFromError_spec [of "JObj [(''message'', Value (JStr ''hi''))] []"
      "[(''message'', Value (JStr ''hi''))]" "[]" "JStr ''hi''"]
    static_msgFromError_spec [of "JObj [] [(''message'', Value (JStr ''hi''))]"
      "[]" "[(''message'', Value (JStr ''hi''))]" "JStr ''hi''"]
    static_msgFromError_spec [of "JObj [] [(''message'', Value (JStr ''''))]"]
    static_msgFromError_spec [of "JObj [(''msg'', Value (JStr ''hi''))] []"]
    static_msgFromError_spec [of "JObj [] []"]
    static_msgFromError_spec [of "JNum (Finite 5)"]
    static_msgFromError_spec [of "JStr ''oops''"]
  by simp

text \<open>
  C5. None of the four extraction operations throws on \<^verbatim>\<open>null\<close>, on \<^verbatim>\<open>undefined\<close>, on
  a primitive, or on an object for which a read of the inspected name (\<^verbatim>\<open>code\<close> for
  the code operations, \<^verbatim>\<open>message\<close> for the message operations) finds no property, a
  data property, or an accessor whose getter returns; and every input that is not an
  object resolves to the applicable default, as a missing field does. The optional
  chain guards the read against \<^verbatim>\<open>null\<close> and \<^verbatim>\<open>undefined\<close> only, and the operations
  catch nothing: when the read finds an accessor, own or inherited, whose getter
  throws \<open>e\<close>, the operation throws that same \<open>e\<close>.
\<close>

theorem extraction_total_unless_getter_throws:
  "(\<not> getter_throws error ''code'' \<longrightarrow>
      (\<exists>v. Zeturn_codeFromError error = Inr v) \<and> (\<exists>v. codeFromError this error = Inr v)) \<and>
   (\<not> getter_throws error ''message'' \<longrightarrow>
      (\<exists>v. Zeturn_msgFromError error = Inr v) \<and> (\<exists>v. msgFromError this error = Inr v)) \<and>
   ((\<forall>ps hs. error \<noteq> JObj ps hs) \<longrightarrow>
      Zeturn_codeFromError error = Inr (JStr NOT_FOUND_CODE) \<and>
      Zeturn_msgFromError error = Inr (JStr NOT_FOUND_MSG) \<and>
      codeFromError this error = Inr (notFoundCode this) \<and>
      msgFromError this error = Inr (notFoundMsg this)) \<and>
   (error = JObj ps hs \<and> map_of (ps @ hs) ''code'' = Some (Throws e) \<longrightarrow>
      Zeturn_codeFromError error = Inl (Thrown e) \<and>
      codeFromError this error = Inl (Thrown e)) \<and>
   (error = JObj ps hs \<and> map_of (ps @ hs) ''message'' = Some (Throws e) \<longrightarrow>
      Zeturn_msgFromError error = Inl (Thrown e) \<and>
      msgFromError this error = Inl (Thrown e))"
proof (intro conjI impI)
  assume "\<not> getter_throws error ''code''"
  then obtain v where v: "opt_member error ''code'' = Inr v"
    using opt_member_no_throw by blast
  show "\<exists>v. Zeturn_codeFromError error = Inr v"
    by (simp add: Zeturn_codeFromError_def v)
  show "\<exists>v. codeFromError this error = Inr v"
    by (simp add: codeFromError_def v)
next
  assume "\<not> getter_throws error ''message''"
  then obtain v where v: "opt_member error ''message'' = Inr v"
    using opt_member_no_throw by blast
  show "\<exists>v. Zeturn_msgFromError error = Inr v"
    by (simp add: Zeturn_msgFromError_def v)
  show "\<exists>v. msgFromError this error = Inr v"
    by (simp add: msgFromError_def v)
next
  assume p: "\<forall>ps hs. error \<noteq> JObj ps hs"
  show "Zeturn_codeFromError error = Inr (JStr NOT_FOUND_CODE)"
    by (simp add: Zeturn_codeFromError_def opt_member_not_object [OF p])
  show "Zeturn_msgFromError error = Inr (JStr NOT_FOUND_MSG)"
    by (simp add: Zeturn_msgFromError_def opt_member_not_object [OF p])
  show "codeFromError this error = Inr (notFoundCode this)"
    by (simp add: codeFromError_def opt_member_not_object [OF p])
  show "msgFromError this error = Inr (notFoundMsg this)"
    by (simp add: msgFromError_def opt_member_not_object [OF p])
next
  assume "error = JObj ps hs \<and> map_of (ps @ hs) ''code'' = Some (Throws e)"
  then have t: "opt_member error ''code'' = Inl (Thrown e)"
    using opt_member_found [of ps hs "''code''" "Throws e"] by simp
  show "Zeturn_codeFromError error = Inl (Thrown e)"
    by (simp add: Zeturn_codeFromError_def t)
  show "codeFromError this error = Inl (Thrown e)"
    by (simp add: codeFromError_def t)
next
  assume "error = JObj ps hs \<and> map_of (ps @ hs) ''message'' = Some (Throws e)"
  then have t: "opt_member error ''message'' = Inl (Thrown e)"
    using opt_member_found [of ps hs "''message''" "Throws e"] by simp
  show "Zeturn_msgFromError error = Inl (Thrown e)"
    by (simp add: Zeturn_msgFromError_def t)
  show "msgFromError this error = Inl (Thrown e)"
    by (simp add: msgFromError_def t)
qed

theorem extraction_total_unless_getter_throws_witness:
  "(\<exists>v. Zeturn_codeFromError (JObj [] [(''message'', Value (JStr ''hi''))]) = Inr v) \<and>
   (\<exists>v. codeFromError \<lparr>notFoundCode = JStr ''c'', notFoundMsg = JStr ''m''\<rparr>
          (JObj [] [(''message'', Value (JStr ''hi''))]) = Inr v) \<and>
   (\<exists>v. Zeturn_msgFromError (JObj [] [(''message'', Value (JStr ''hi''))]) = Inr v) \<and>
   (\<exists>v. msgFromError \<lparr>notFoundCode = JStr ''c'', notFoundMsg = JStr ''m''\<rparr>
          (JObj [] [(''message'', Value (JStr ''hi''))]) = Inr v) \<and>
   Zeturn_codeFromError (JBool True) = Inr (JStr NOT_FOUND_CODE) \<and>
   Zeturn_msgFromError (JBool True) = Inr (JStr NOT_FOUND_MSG) \<and>
   codeFromError \<lparr>notFoundCode = JStr ''c'', notFoundMsg = JStr ''m''\<rparr> JNull
     = Inr (JStr ''c'') \<and>
   msgFromError \<lparr>notFoundCode = JStr ''c'', notFoundMsg = JStr ''m''\<rparr> JUndefined
     = Inr (JStr ''m'') \<and>
   Zeturn_codeFromError (JObj [] [(''code'', Throws (JStr ''boom''))])
     = Inl (Thrown (JStr ''boom'')) \<and>
   msgFromError \<lparr>notFoundCode = JStr ''c'', notFoundMsg = JStr ''m''\<rparr>
     (JObj [(''message'', Throws JNull)] []) = Inl (Thrown JNull)"
  using
    extraction_total_unless_getter_throws [of "JObj [] [(''message'', Value (JStr ''hi''))]"
      "\<lparr>notFoundCode = JStr ''c'', notFoundMsg = JStr ''m''\<rparr>"]
    extraction_total_unless_getter_throws [of "JBool True"
      "\<lparr>notFoundCode = JStr ''c'', notFoundMsg = JStr ''m''\<rparr>"]
    extraction_total_unless_getter_throws [of JNull
      "\<lparr>notFoundCode = JStr ''c'', notFoundMsg = JStr ''m''\<rparr>"]
    extraction_total_unless_getter_throws [of JUndefined
      "\<lparr>notFoundCode = JStr ''c'', notFoundMsg = JStr ''m''\<rparr>"]
    extraction_total_unless_getter_throws [of "JObj [] [(''code'', Throws (JStr ''boom''))]"
      "\<lparr>notFoundCode = JStr ''c'', notFoundMsg = JStr ''m''\<rparr>"
      "[]" "[(''code'', Throws (JStr ''boom''))]" "JStr ''boom''"]
    extraction_total_unless_getter_throws [of "JObj [(''message'', Throws JNull)] []"
      "\<lparr>notFoundCode = JStr ''c'', notFoundMsg = JStr ''m''\<rparr>"
      "[(''message'', Throws JNull)]" "[]" JNull]
  by auto

text \<open>
  The claim as the specification words it, that no input whatsoever makes an
  extraction operation throw, fails on an object like
  \<^verbatim>\<open>{ get code() { throw "boom" } }\<close>: each of the four operations hands the thrown
  value on.
\<close>

theorem extraction_throws_counterexample:
  "Zeturn_codeFromError (JObj [(''code'', Throws (JStr ''boom''))] [])
     = Inl (Thrown (JStr ''boom'')) \<and>
   Zeturn_msgFromError (JObj [(''message'', Throws (JStr ''boom''))] [])
     = Inl (Thrown (JStr ''boom'')) \<and>
   codeFromError \<lparr>notFoundCode = JStr ''c'', notFoundMsg = JStr ''m''\<rparr>
     (JObj [(''code'', Throws (JStr ''boom''))] []) = Inl (Thrown (JStr ''boom'')) \<and>
   msgFromError \<lparr>notFoundCode = JStr ''c'', notFoundMsg = JStr ''m''\<rparr>
     (JObj [(''message'', Throws (JStr ''boom''))] []) = Inl (Thrown (JStr ''boom''))"
  by (simp add: Zeturn_codeFromError_def Zeturn_msgFromError_def codeFromError_def
      msgFromError_def opt_member_def)




section \<open>Instances and their defaults\<close>

text \<open>
  C6. Constructing an instance from \<^verbatim>\<open>{ notFoundCode: "custom_code" }\<close> succeeds, and
  on every input whose \<^verbatim>\<open>code\<close> is absent or falsy (\<^verbatim>\<open>{}\<close> among them) its
  \<open>codeFromError\<close> returns \<^verbatim>\<open>"custom_code"\<close>, while on every input whose \<^verbatim>\<open>message\<close> is
  absent or falsy its \<open>msgFromError\<close> returns the global \<^verbatim>\<open>"zeturn: unknown"\<close>. Absent
  means that a read finds no property, own or inherited.
\<close>

theorem custom_code_instance:
  "\<exists>z. Zeturn_new (JObj [(''notFoundCode'', Value (JStr ''custom_code''))] []) = Inr z \<and>
     (\<forall>error. falsy_field error ''code'' \<longrightarrow>
        codeFromError z error = Inr (JStr ''custom_code'')) \<and>
     (\<forall>error. falsy_field error ''message'' \<longrightarrow>
        msgFromError z error = Inr (JStr ''zeturn: unknown''))"
proof -
  let ?z = "\<lparr>notFoundCode = JStr ''custom_code'', notFoundMsg = JStr ''zeturn: unknown''\<rparr>"
  have new: "Zeturn_new (JObj [(''notFoundCode'', Value (JStr ''custom_code''))] []) = Inr ?z"
    by (simp add: Zeturn_new_def or_else_def NOT_FOUND_MSG_def)
  have code: "codeFromError ?z error = Inr (JStr ''custom_code'')"
    if "falsy_field error ''code''" for error
    using opt_member_falsy [OF that] by (auto simp: codeFromError_def)
  have msg: "msgFromError ?z error = Inr (JStr ''zeturn: unknown'')"
    if "falsy_field error ''message''" for error
    using opt_member_falsy [OF that] by (auto simp: msgFromError_def)
  from new code msg show ?thesis by blast
qed

theorem custom_code_instance_witness:
  "\<exists>z. Zeturn_new (JObj [(''notFoundCode'', Value (JStr ''custom_code''))] []) = Inr z \<and>
     codeFromError z (JObj [] []) = Inr (JStr ''custom_code'') \<and>
     codeFromError z (JObj [] [(''message'', Value (JStr ''hi''))])
       = Inr (JStr ''custom_code'') \<and>
     msgFromError z (JObj [] []) = Inr (JStr ''zeturn: unknown'')"
proof -
  obtain z
    where z: "Zeturn_new (JObj [(''notFoundCode'', Value (JStr ''custom_code''))] []) = Inr z"
    and c: "\<forall>error. falsy_field error ''code'' \<longrightarrow>
        codeFromError z error = Inr (JStr ''custom_code'')"
    and m: "\<forall>error. falsy_field error ''message'' \<longrightarrow>
        msgFromError z error = Inr (JStr ''zeturn: unknown'')"
    using custom_code_instance by blast
  have "falsy_field (JObj [] []) ''code''" and "falsy_field (JObj [] []) ''message''"
    and "falsy_field (JObj [] [(''message'', Value (JStr ''hi''))]) ''code''"
    by simp_all
  with z c m show ?thesis by blast
qed

text \<open>
  C8. Constructing an instance from an options object in which \<^verbatim>\<open>notFoundCode\<close> and
  \<^verbatim>\<open>notFoundMsg\<close> are both unset (absent, or \<^verbatim>\<open>undefined\<close>) succeeds, and the instance
  is extensionally the static mode: on every input its \<open>codeFromError\<close> has the outcome
  of \<^verbatim>\<open>Zeturn.codeFromError\<close> and its \<open>msgFromError\<close> the outcome of
  \<^verbatim>\<open>Zeturn.msgFromError\<close>.
\<close>

theorem unset_overrides_equal_static:
  assumes "map_of (ps @ hs) ''notFoundCode'' = None \<or>
           map_of (ps @ hs) ''notFoundCode'' = Some (Value JUndefined)"
    and "map_of (ps @ hs) ''notFoundMsg'' = None \<or>
         map_of (ps @ hs) ''notFoundMsg'' = Some (Value JUndefined)"
  shows "\<exists>z. Zeturn_new (JObj ps hs) = Inr z \<and>
           (\<forall>error. codeFromError z error = Zeturn_codeFromError error) \<and>
           (\<forall>error. msgFromError z error = Zeturn_msgFromError error)"
proof -
  let ?z = "\<lparr>notFoundCode = JStr NOT_FOUND_CODE, notFoundMsg = JStr NOT_FOUND_MSG\<rparr>"
  have c: "get_member (JObj ps hs) ''notFoundCode'' = Inr JUndefined"
    using assms(1) by (auto simp del: map_of_append)
  have m: "get_member (JObj ps hs) ''notFoundMsg'' = Inr JUndefined"
    using assms(2) by (auto simp del: map_of_append)
  have "Zeturn_new (JObj ps hs) = Inr ?z"
    unfolding Zeturn_new_def c m by (simp add: or_else_def)
  then show ?thesis
    by (simp add: codeFromError_default msgFromError_default)
qed

theorem unset_overrides_equal_static_witness:
  "\<exists>z. Zeturn_new (JObj [] []) = Inr z \<and>
     codeFromError z (JObj [(''code'', Value (JStr ''X''))] [])
       = Zeturn_codeFromError (JObj [(''code'', Value (JStr ''X''))] []) \<and>
     msgFromError z JNull = Zeturn_msgFromError JNull"
  using unset_overrides_equal_static [of "[]" "[]"] by auto

text \<open>
  C10. When the options object supplies \<^verbatim>\<open>notFoundCode\<close> with a falsy value (the empty
  string in particular) and its other field can be read, construction succeeds and
  the instance's code default is the global \<^verbatim>\<open>"zeturn_unknown"\<close>, so its
  \<open>codeFromError\<close> has the outcome of \<^verbatim>\<open>Zeturn.codeFromError\<close> on every input; and
  likewise for a falsy \<^verbatim>\<open>notFoundMsg\<close>, \<^verbatim>\<open>"zeturn: unknown"\<close> and \<open>msgFromError\<close>.
\<close>

theorem falsy_override_ignored:
  "(map_of (ps @ hs) ''notFoundCode'' = Some (Value c) \<and> \<not> ToBoolean c \<and>
    get_member (JObj ps hs) ''notFoundMsg'' = Inr m \<longrightarrow>
      (\<exists>z. Zeturn_new (JObj ps hs) = Inr z \<and> notFoundCode z = JStr ''zeturn_unknown'' \<and>
           (\<forall>error. codeFromError z error = Zeturn_codeFromError error))) \<and>
   (map_of (ps @ hs) ''notFoundMsg'' = Some (Value m) \<and> \<not> ToBoolean m \<and>
    get_member (JObj ps hs) ''notFoundCode'' = Inr c \<longrightarrow>
      (\<exists>z. Zeturn_new (JObj ps hs) = Inr z \<and> notFoundMsg z = JStr ''zeturn: unknown'' \<and>
           (\<forall>error. msgFromError z error = Zeturn_msgFromError error)))"
proof (intro conjI impI)
  assume a: "map_of (ps @ hs) ''notFoundCode'' = Some (Value c) \<and> \<not> ToBoolean c \<and>
    get_member (JObj ps hs) ''notFoundMsg'' = Inr m"
  let ?z = "\<lparr>notFoundCode = JStr NOT_FOUND_CODE,
             notFoundMsg = or_else m (JStr NOT_FOUND_MSG)\<rparr>"
  have "get_member (JObj ps hs) ''notFoundCode'' = Inr c"
    using a by (simp del: map_of_append)
  with a have "Zeturn_new (JObj ps hs) = Inr ?z"
    unfolding Zeturn_new_def by (simp add: or_else_def)
  moreover have "notFoundCode ?z = JStr ''zeturn_unknown''"
    by (simp add: NOT_FOUND_CODE_def)
  moreover have "\<forall>error. codeFromError ?z error = Zeturn_codeFromError error"
    by (simp add: codeFromError_default)
  ultimately show "\<exists>z. Zeturn_new (JObj ps hs) = Inr z \<and>
      notFoundCode z = JStr ''zeturn_unknown'' \<and>
      (\<forall>error. codeFromError z error = Zeturn_codeFromError error)"
    by blast
next
  assume a: "map_of (ps @ hs) ''notFoundMsg'' = Some (Value m) \<and> \<not> ToBoolean m \<and>
    get_member (JObj ps hs) ''notFoundCode'' = Inr c"
  let ?z = "\<lparr>notFoundCode = or_else c (JStr NOT_FOUND_CODE),
             notFoundMsg = JStr NOT_FOUND_MSG\<rparr>"
  have "get_member (JObj ps hs) ''notFoundMsg'' = Inr m"
    using a by (simp del: map_of_append)
  with a have "Zeturn_new (JObj ps hs) = Inr ?z"
    unfolding Zeturn_new_def by (simp add: or_else_def)
  moreover have "notFoundMsg ?z = JStr ''zeturn: unknown''"
    by (simp add: NOT_FOUND_MSG_def)
  moreover have "\<forall>error. msgFromError ?z error = Zeturn_msgFromError error"
    by (simp add: msgFromError_default)
  ultimately show "\<exists>z. Zeturn_new (JObj ps hs) = Inr z \<and>
      notFoundMsg z = JStr ''zeturn: unknown'' \<and>
      (\<forall>error. msgFromError z error = Zeturn_msgFromError error)"
    by blast
qed

theorem falsy_override_ignored_witness:
  "(\<exists>z. Zeturn_new (JObj [(''notFoundCode'', Value (JStr ''''))] []) = Inr z \<and>
        notFoundCode z = JStr ''zeturn_unknown'' \<and>
        codeFromError z (JObj [] []) = Zeturn_codeFromError (JObj [] [])) \<and>
   (\<exists>z. Zeturn_new (JObj [(''notFoundMsg'', Value (JStr ''''))] []) = Inr z \<and>
        notFoundMsg z = JStr ''zeturn: unknown'' \<and>
        msgFromError z (JObj [] []) = Zeturn_msgFromError (JObj [] []))"
  using
    falsy_override_ignored [of "[(''notFoundCode'', Value (JStr ''''))]" "[]" "JStr ''''"
      JUndefined]
    falsy_override_ignored [of "[(''notFoundMsg'', Value (JStr ''''))]" "[]" JUndefined
      "JStr ''''"]
  by auto

end
